theory Spec2Isabelle
  imports Main
begin

section \<open>The call component (src/src/components/Call.tsx)\<close>

text \<open>
  The component \<open>Call\<close> is a React function component. Its mutable cells are the
  \<open>useState\<close> values and the four \<open>useRef\<close> cells; its behaviour is the set of
  callbacks it registers. Each callback is embedded as a function from the state before to
  the browser and backend calls it makes (a list of \<open>effect\<close>s, in program order) and the
  state after. An \<open>async\<close> function is embedded as one function per stretch of code between
  two \<open>await\<close>s; the outcome of the awaited promise is an event of the environment.
\<close>

subsection \<open>Data\<close>

text \<open>
  What the component reads from its surroundings (lines 14 to 18): the route parameter, the
  identifier of the logged-in user, and \<open>callType\<close>, the query parameter \<open>type\<close> or
  \<open>video\<close> when there is none. They are fixed for the life of a session.
\<close>

record props =
  receiverId :: string
  userId :: string
  callType :: string

text \<open>
  A \<open>MediaStreamTrack\<close>. Track objects are shared between the stream shown in the local
  video element and the senders of the peer connection, so they live in a store
  (\<open>tracks\<close> of the state) and are referred to by \<open>tid\<close>.
\<close>

datatype track_kind = Audio | Video

record track =
  tid :: nat
  kind :: track_kind
  enabled :: bool
  stopped :: bool

text \<open>A \<open>MediaStream\<close>: the identifiers of its tracks.\<close>

type_synonym media_stream = "nat list"

text \<open>A mounted \<open>video\<close> element; only its \<open>srcObject\<close> is used.\<close>

record video_element =
  srcObject :: "media_stream option"

record peer_connection =
  pc_closed :: bool
  pc_senders :: "nat list"

datatype ready_state = Connecting | Open | Closing | Closed

record data_channel =
  dc_label :: string
  readyState :: ready_state

text \<open>A row of the table \<open>call_signals\<close> (the SignalMessage of the specification).\<close>

record signal_message =
  from_user :: string
  to_user :: string
  sig_type :: string
  signal :: string

text \<open>An entry of \<open>newPresences\<close> in a presence event.\<close>

record presence =
  user_id :: string

text \<open>
  Parsed JSON, for the messages of the data channel. The members of an object have distinct
  names, so \<open>map_of\<close> reads a property.
\<close>

datatype json = JNull | JBool bool | JNum int | JStr string
  | JArr "json list" | JObj "(string \<times> json) list"

datatype error = InvalidStateError | SyntaxError | TypeError

text \<open>
  The calls the component makes on the browser, the router and the backend client.
  The constructors \<open>PcCreateAnswer\<close>, \<open>PcSetRemoteDescription\<close> and \<open>PcAddIceCandidate\<close>
  stand for the remaining negotiation methods of \<open>RTCPeerConnection\<close>.
\<close>

datatype effect =
    FetchProfile string
  | GetUserMedia bool bool
  | ChannelSubscribe string
  | ChannelUnsubscribe string
  | NewPeerConnection "string list"
  | PcAddTrack nat
  | PcCreateDataChannel string
  | PcCreateOffer
  | PcCreateAnswer
  | PcSetLocalDescription string
  | PcSetRemoteDescription string
  | PcAddIceCandidate string
  | PcClose
  | InsertSignal signal_message
  | DataChannelSend json
  | TrackStop nat
  | Navigate string
  | ConsoleError string

text \<open>
  The \<open>useState\<close> values (lines 20 to 24), the refs (lines 25 to 28), the track store, and
  whether React still has the component mounted.
\<close>

record call_state =
  isMuted :: bool
  isVideoEnabled :: bool
  isCallActive :: bool
  isConnecting :: bool
  permissionError :: "string option"
  localVideoRef :: "video_element option"
  remoteVideoRef :: "video_element option"
  peerConnectionRef :: "peer_connection option"
  channelRef :: "data_channel option"
  tracks :: "track list"
  mounted :: bool

text \<open>The state of a freshly rendered component, given which video elements are mounted.\<close>

definition initial_state :: "video_element option \<Rightarrow> video_element option \<Rightarrow> call_state" where
  "initial_state lv rv =
     \<lparr>isMuted = False, isVideoEnabled = True, isCallActive = False, isConnecting = True,
      permissionError = None, localVideoRef = lv, remoteVideoRef = rv,
      peerConnectionRef = None, channelRef = None, tracks = [], mounted = True\<rparr>"

subsection \<open>The channel name (line 45)\<close>

definition channelName :: "props \<Rightarrow> string" where
  "channelName p = ''call:'' @ receiverId p"

subsection \<open>Media acquisition: \<open>initializeCall\<close> (lines 64 to 134)\<close>

text \<open>The \<open>catch\<close> block's choice of message (lines 122 to 130), by \<open>error.name\<close>.\<close>

definition errorMessage :: "string \<Rightarrow> string" where
  "errorMessage name =
     (if name = ''NotAllowedError''
        then ''Please allow access to your camera and microphone to make calls.''
      else if name = ''NotFoundError''
        then ''No camera or microphone found. Please check your device connections.''
      else if name = ''NotReadableError''
        then ''Your camera or microphone is already in use by another application.''
      else ''Could not access camera or microphone.'')"

text \<open>Up to the \<open>await\<close> of line 72: clear the error, request the devices.\<close>

definition initializeCall :: "props \<Rightarrow> call_state \<Rightarrow> effect list \<times> call_state" where
  "initializeCall p s =
     ([GetUserMedia True (callType p = ''video'')], s\<lparr>permissionError := None\<rparr>)"

definition iceServers :: "string list" where
  "iceServers = [''stun:stun.l.google.com:19302'', ''stun:stun1.l.google.com:19302'']"

text \<open>
  After the \<open>await\<close>, when \<open>getUserMedia\<close> resolved with a stream of the tracks \<open>ts\<close>
  (lines 74 to 119).
\<close>

definition initializeCall_resolved :: "track list \<Rightarrow> call_state \<Rightarrow> effect list \<times> call_state" where
  "initializeCall_resolved ts s =
     (let stream = map tid ts in
      ([NewPeerConnection iceServers] @ map PcAddTrack stream @ [PcCreateDataChannel ''call-channel''],
       s\<lparr>tracks := tracks s @ ts,
         localVideoRef := map_option (\<lambda>el. el\<lparr>srcObject := Some stream\<rparr>) (localVideoRef s),
         channelRef := Some \<lparr>dc_label = ''call-channel'', readyState = Connecting\<rparr>,
         peerConnectionRef := Some \<lparr>pc_closed = False, pc_senders = stream\<rparr>\<rparr>))"

text \<open>After the \<open>await\<close>, when it rejected with an error named \<open>name\<close> (lines 120 to 133).\<close>

definition initializeCall_rejected :: "string \<Rightarrow> call_state \<Rightarrow> effect list \<times> call_state" where
  "initializeCall_rejected name s =
     ([ConsoleError ''Error accessing media devices:''],
      s\<lparr>permissionError := Some (errorMessage name)\<rparr>)"

subsection \<open>The toggles (lines 154 to 172)\<close>

text \<open>\<open>localVideoRef.current?.srcObject\<close>\<close>

definition localStream :: "call_state \<Rightarrow> media_stream option" where
  "localStream s = (case localVideoRef s of None \<Rightarrow> None | Some el \<Rightarrow> srcObject el)"

definition flipEnabled :: "track_kind \<Rightarrow> media_stream \<Rightarrow> track \<Rightarrow> track" where
  "flipEnabled k stream t =
     (if tid t \<in> set stream \<and> kind t = k then t\<lparr>enabled := \<not> enabled t\<rparr> else t)"

definition toggleMute :: "call_state \<Rightarrow> call_state" where
  "toggleMute s =
     (case localStream s of
        None \<Rightarrow> s
      | Some stream \<Rightarrow>
          s\<lparr>tracks := map (flipEnabled Audio stream) (tracks s), isMuted := \<not> isMuted s\<rparr>)"

definition toggleVideo :: "call_state \<Rightarrow> call_state" where
  "toggleVideo s =
     (case localStream s of
        None \<Rightarrow> s
      | Some stream \<Rightarrow>
          s\<lparr>tracks := map (flipEnabled Video stream) (tracks s),
            isVideoEnabled := \<not> isVideoEnabled s\<rparr>)"

subsection \<open>Offer creation: \<open>createOffer\<close> (lines 136 to 152)\<close>

text \<open>
  Up to the first \<open>await\<close>: return at once without a peer connection, otherwise ask the
  connection for an offer.
\<close>

definition createOffer :: "call_state \<Rightarrow> effect list \<times> call_state" where
  "createOffer s =
     (case peerConnectionRef s of None \<Rightarrow> ([], s) | Some pc \<Rightarrow> ([PcCreateOffer], s))"

text \<open>
  When \<open>createOffer()\<close> resolved with \<open>offer\<close> (line 141). The ref is read again; on an
  empty ref the call raises inside the \<open>try\<close> and the \<open>catch\<close> logs it.
\<close>

definition createOffer_created :: "string \<Rightarrow> call_state \<Rightarrow> effect list \<times> call_state" where
  "createOffer_created offer s =
     (case peerConnectionRef s of
        None \<Rightarrow> ([ConsoleError ''Error creating offer:''], s)
      | Some pc \<Rightarrow> ([PcSetLocalDescription offer], s))"

text \<open>
  When \<open>setLocalDescription(offer)\<close> resolved (lines 143 to 148). The offer is modelled by
  its serialisation, so \<open>JSON.stringify(offer)\<close> is \<open>offer\<close>.
\<close>

definition createOffer_described :: "props \<Rightarrow> string \<Rightarrow> call_state \<Rightarrow> effect list \<times> call_state" where
  "createOffer_described p offer s =
     ([InsertSignal \<lparr>from_user = userId p, to_user = receiverId p,
                     sig_type = ''offer'', signal = offer\<rparr>], s)"

text \<open>When one of the awaited promises rejected (lines 149 to 151).\<close>

definition createOffer_failed :: "call_state \<Rightarrow> effect list \<times> call_state" where
  "createOffer_failed s = ([ConsoleError ''Error creating offer:''], s)"

subsection \<open>Teardown: \<open>endCall\<close> (lines 174 to 186) and the effect cleanup (lines 58 to 61)\<close>

definition endCallMessage :: json where
  "endCallMessage = JObj [(''type'', JStr ''end-call'')]"

definition stopTrack :: "media_stream \<Rightarrow> track \<Rightarrow> track" where
  "stopTrack stream t = (if tid t \<in> set stream then t\<lparr>stopped := True\<rparr> else t)"

text \<open>
  \<open>peerConnectionRef.current?.close()\<close>. Closing a peer connection closes its data channels;
  the channel held in \<open>channelRef\<close> was created on the connection held in
  \<open>peerConnectionRef\<close> (lines 110 to 119).
\<close>

definition closeEffects :: "call_state \<Rightarrow> effect list" where
  "closeEffects s = (case peerConnectionRef s of None \<Rightarrow> [] | Some pc \<Rightarrow> [PcClose])"

definition closePeerConnection :: "call_state \<Rightarrow> call_state" where
  "closePeerConnection s =
     (case peerConnectionRef s of
        None \<Rightarrow> s
      | Some pc \<Rightarrow>
          s\<lparr>peerConnectionRef := Some (pc\<lparr>pc_closed := True\<rparr>),
            channelRef := map_option (\<lambda>dc. dc\<lparr>readyState := Closed\<rparr>) (channelRef s)\<rparr>)"

text \<open>\<open>RTCDataChannel.send\<close> raises \<open>InvalidStateError\<close> unless the channel is open.\<close>

definition sendRaises :: "call_state \<Rightarrow> bool" where
  "sendRaises s = (case channelRef s of None \<Rightarrow> False | Some dc \<Rightarrow> readyState dc \<noteq> Open)"

definition stopLocalTracks :: "call_state \<Rightarrow> call_state" where
  "stopLocalTracks s =
     (case localStream s of
        None \<Rightarrow> s
      | Some stream \<Rightarrow> s\<lparr>tracks := map (stopTrack stream) (tracks s)\<rparr>)"

definition endCall :: "call_state \<Rightarrow> error + (effect list \<times> call_state)" where
  "endCall s =
     (if sendRaises s then Inl InvalidStateError
      else Inr
        ((case channelRef s of None \<Rightarrow> [] | Some dc \<Rightarrow> [DataChannelSend endCallMessage])
         @ (case localStream s of None \<Rightarrow> [] | Some stream \<Rightarrow> map TrackStop stream)
         @ closeEffects s
         @ [Navigate ''/home''],
         (closePeerConnection (stopLocalTracks s))\<lparr>isCallActive := False\<rparr>))"

definition cleanup :: "props \<Rightarrow> call_state \<Rightarrow> effect list \<times> call_state" where
  "cleanup p s = (ChannelUnsubscribe (channelName p) # closeEffects s, closePeerConnection s)"

subsection \<open>The callbacks registered by the component\<close>

text \<open>Presence join (lines 47 to 52).\<close>

definition onPresenceJoin :: "props \<Rightarrow> presence list \<Rightarrow> call_state \<Rightarrow> effect list \<times> call_state" where
  "onPresenceJoin p newPresences s =
     (if list_ex (\<lambda>q. user_id q = receiverId p) newPresences
      then createOffer (s\<lparr>isConnecting := False\<rparr>)
      else ([], s))"

text \<open>\<open>peerConnection.ontrack\<close> (lines 89 to 95); \<open>event.streams[0]\<close> may be undefined.\<close>

definition ontrack :: "media_stream list \<Rightarrow> call_state \<Rightarrow> effect list \<times> call_state" where
  "ontrack streams s =
     (case remoteVideoRef s of
        None \<Rightarrow> ([], s)
      | Some el \<Rightarrow>
          ([], s\<lparr>remoteVideoRef :=
                    Some (el\<lparr>srcObject := (case streams of [] \<Rightarrow> None | x # xs \<Rightarrow> Some x)\<rparr>),
                 isCallActive := True, isConnecting := False\<rparr>))"

text \<open>
  \<open>peerConnection.onicecandidate\<close> (lines 98 to 107). The candidate is modelled by its
  serialisation; \<open>None\<close> is the null candidate that ends gathering.
\<close>

definition onicecandidate :: "props \<Rightarrow> string option \<Rightarrow> call_state \<Rightarrow> effect list \<times> call_state" where
  "onicecandidate p candidate s =
     (case candidate of
        None \<Rightarrow> ([], s)
      | Some c \<Rightarrow>
          ([InsertSignal \<lparr>from_user = userId p, to_user = receiverId p,
                          sig_type = ''ice-candidate'', signal = c\<rparr>], s))"

text \<open>
  \<open>dataChannel.onmessage\<close> (lines 111 to 116). The argument is the result of
  \<open>JSON.parse(event.data)\<close>, \<open>None\<close> when the text is not JSON. Reading \<open>.type\<close> of
  \<open>null\<close> raises; of a value that is no object it is undefined.
\<close>

definition onmessage :: "json option \<Rightarrow> call_state \<Rightarrow> error + (effect list \<times> call_state)" where
  "onmessage data s =
     (case data of
        None \<Rightarrow> Inl SyntaxError
      | Some JNull \<Rightarrow> Inl TypeError
      | Some (JObj members) \<Rightarrow>
          (if map_of members ''type'' = Some (JStr ''end-call'') then endCall s else Inr ([], s))
      | Some other \<Rightarrow> Inr ([], s))"

text \<open>
  The body of the \<open>useEffect\<close> (lines 30 to 56) on mount: start the profile query, run
  \<open>initializeCall\<close> up to its \<open>await\<close>, subscribe to the presence events of the channel.
  The profile is only displayed and is left out of the state.
\<close>

definition mount :: "props \<Rightarrow> call_state \<Rightarrow> effect list \<times> call_state" where
  "mount p s =
     (FetchProfile (receiverId p) # fst (initializeCall p s) @ [ChannelSubscribe (channelName p)],
      snd (initializeCall p s))"

text \<open>
  A change of \<open>receiverId\<close>, of the user's identifier or of \<open>callType\<close> (the dependencies
  of the effect, line 62) runs the cleanup with the old values and then the body of the
  effect with the new ones.
\<close>

definition effectRerun :: "props \<Rightarrow> props \<Rightarrow> call_state \<Rightarrow> effect list \<times> call_state" where
  "effectRerun p p' s =
     (fst (cleanup p s) @ fst (mount p' (snd (cleanup p s))), snd (mount p' (snd (cleanup p s))))"

subsection \<open>Events and the transition function\<close>

text \<open>
  What can happen to a mounted component: the outcome of an awaited promise, a callback of
  the presence channel, of the peer connection or of the data channel, a click on one of
  the buttons (lines 196 to 207 and 250 to 278), a state change of the data channel made by
  the browser, the arrival of a row in \<open>call_signals\<close>, and the unmount (the effect
  cleanup runs and React empties the refs of the removed elements).
  The component registers callbacks for presence events only (lines 45 to 56) and never
  reads \<open>call_signals\<close>, so no code runs on \<open>SignalReceived\<close>.
  \<open>step\<close> says what the callback of an event does in any state; whether the environment
  can produce the event in that state is not part of it. A change of the dependencies of
  the effect is not an event of \<open>step\<close>: it changes the parameters, see \<open>effectRerun\<close>.
\<close>

datatype event =
    GetUserMediaResolved "track list"
  | GetUserMediaRejected string
  | PresenceJoin "presence list"
  | PresenceLeave
  | CreateOfferResolved string
  | SetLocalDescriptionResolved string
  | NegotiationRejected
  | RemoteTrack "media_stream list"
  | IceCandidate "string option"
  | DataChannelMessage "json option"
  | DataChannelStateChange ready_state
  | SignalReceived signal_message
  | ClickMute
  | ClickVideo
  | ClickEndCall
  | ClickTryAgain
  | ClickGoBack
  | Unmount

fun step :: "props \<Rightarrow> call_state \<Rightarrow> event \<Rightarrow> error + (effect list \<times> call_state)" where
  "step p s (GetUserMediaResolved ts) = Inr (initializeCall_resolved ts s)"
| "step p s (GetUserMediaRejected name) = Inr (initializeCall_rejected name s)"
| "step p s (PresenceJoin newPresences) = Inr (onPresenceJoin p newPresences s)"
| "step p s PresenceLeave = endCall s"
| "step p s (CreateOfferResolved offer) = Inr (createOffer_created offer s)"
| "step p s (SetLocalDescriptionResolved offer) = Inr (createOffer_described p offer s)"
| "step p s NegotiationRejected = Inr (createOffer_failed s)"
| "step p s (RemoteTrack streams) = Inr (ontrack streams s)"
| "step p s (IceCandidate candidate) = Inr (onicecandidate p candidate s)"
| "step p s (DataChannelMessage data) = onmessage data s"
| "step p s (DataChannelStateChange rs) =
     Inr ([], s\<lparr>channelRef := map_option (\<lambda>dc. dc\<lparr>readyState := rs\<rparr>) (channelRef s)\<rparr>)"
| "step p s (SignalReceived m) = Inr ([], s)"
| "step p s ClickMute = Inr ([], toggleMute s)"
| "step p s ClickVideo = Inr ([], toggleVideo s)"
| "step p s ClickEndCall = endCall s"
| "step p s ClickTryAgain = Inr (initializeCall p s)"
| "step p s ClickGoBack = Inr ([Navigate ''/home''], s)"
| "step p s Unmount =
     Inr (fst (cleanup p s), (snd (cleanup p s))\<lparr>localVideoRef := None, remoteVideoRef := None\<rparr>)"

subsection \<open>What React does around a callback\<close>

text \<open>
  Which elements the component renders (lines 189 to 236): the error view has no \<open>video\<close>
  element; the call view has the remote one, and the local one for a video call only. React
  keeps a ref filled exactly while its element is rendered; an element that stays rendered
  keeps its \<open>srcObject\<close>, a new one has none.
\<close>

definition mountedElement :: "video_element option \<Rightarrow> video_element" where
  "mountedElement r = (case r of None \<Rightarrow> \<lparr>srcObject = None\<rparr> | Some el \<Rightarrow> el)"

definition render :: "props \<Rightarrow> call_state \<Rightarrow> call_state" where
  "render p s =
     (if permissionError s \<noteq> None
      then s\<lparr>localVideoRef := None, remoteVideoRef := None\<rparr>
      else s\<lparr>localVideoRef :=
               (if callType p = ''video'' then Some (mountedElement (localVideoRef s)) else None),
             remoteVideoRef := Some (mountedElement (remoteVideoRef s))\<rparr>)"

text \<open>
  React drops the \<open>useState\<close> updates of a component that is no longer mounted; what a
  callback did to the refs and to the objects they hold stays.
\<close>

definition dropUpdates :: "call_state \<Rightarrow> call_state \<Rightarrow> call_state" where
  "dropUpdates s s' =
     s'\<lparr>isMuted := isMuted s, isVideoEnabled := isVideoEnabled s,
        isCallActive := isCallActive s, isConnecting := isConnecting s,
        permissionError := permissionError s\<rparr>"

text \<open>
  After a callback that went from \<open>s\<close> to \<open>s'\<close>: an unmounted component has its state
  updates dropped, the unmount marks the component unmounted, and a mounted component is
  rendered again.
\<close>

definition commit :: "props \<Rightarrow> event \<Rightarrow> call_state \<Rightarrow> call_state \<Rightarrow> call_state" where
  "commit p e s s' =
     (if \<not> mounted s then dropUpdates s s'
      else if e = Unmount then s'\<lparr>mounted := False\<rparr>
      else render p s')"

definition deliver :: "props \<Rightarrow> call_state \<Rightarrow> event \<Rightarrow> error + (effect list \<times> call_state)" where
  "deliver p s e =
     (case step p s e of
        Inl err \<Rightarrow> Inl err
      | Inr (fx, s') \<Rightarrow> Inr (fx, commit p e s s'))"

text \<open>
  A run: the events are delivered one after the other (one logical thread). A callback that
  raises is abandoned; all raising statements come first in their callback, so the state is
  as before.
\<close>

fun run :: "props \<Rightarrow> call_state \<Rightarrow> event list \<Rightarrow> effect list \<times> call_state" where
  "run p s [] = ([], s)"
| "run p s (e # es) =
     (case deliver p s e of
        Inl err \<Rightarrow> run p s es
      | Inr (fx, s') \<Rightarrow> (fx @ fst (run p s' es), snd (run p s' es)))"

text \<open>The session from its mount on.\<close>

definition session :: "props \<Rightarrow> call_state \<Rightarrow> event list \<Rightarrow> effect list \<times> call_state" where
  "session p s es =
     (fst (mount p s) @ fst (run p (snd (mount p s)) es), snd (run p (snd (mount p s)) es))"

subsection \<open>Concrete sessions\<close>

text \<open>
  Two participants calling each other with video, the two tracks a video call acquires, the
  component after its first render, and Alice's session while her request for the media is
  pending, once the media is acquired, and once it was refused.
\<close>

definition alice :: props where
  "alice = \<lparr>receiverId = ''bob'', userId = ''alice'', callType = ''video''\<rparr>"

definition bob :: props where
  "bob = \<lparr>receiverId = ''alice'', userId = ''bob'', callType = ''video''\<rparr>"

definition mic :: track where
  "mic = \<lparr>tid = 0, kind = Audio, enabled = True, stopped = False\<rparr>"

definition camera :: track where
  "camera = \<lparr>tid = 1, kind = Video, enabled = True, stopped = False\<rparr>"

definition rendered :: call_state where
  "rendered = initial_state (Some \<lparr>srcObject = None\<rparr>) (Some \<lparr>srcObject = None\<rparr>)"

definition connecting :: call_state where
  "connecting = snd (session alice rendered [GetUserMediaResolved [mic, camera]])"

definition acquiring :: call_state where
  "acquiring = snd (session alice rendered [])"

definition denied :: call_state where
  "denied = snd (session alice rendered [GetUserMediaRejected ''NotAllowedError''])"

text \<open>Rows that Bob's coordinator stored for Alice.\<close>

definition bobs_offer :: signal_message where
  "bobs_offer = \<lparr>from_user = ''bob'', to_user = ''alice'', sig_type = ''offer'', signal = ''v=0''\<rparr>"

definition bobs_candidate :: signal_message where
  "bobs_candidate = \<lparr>from_user = ''bob'', to_user = ''alice'', sig_type = ''ice-candidate'',
                      signal = ''candidate:1 1 udp 2122260223 192.0.2.1 54321 typ host''\<rparr>"

subsection \<open>Vocabulary for the properties\<close>

text \<open>
  The calls by which a coordinator would take up a remote offer: setting the remote
  description, creating an answer, storing a row of type \<open>answer\<close>.
\<close>

fun answers :: "effect \<Rightarrow> bool" where
  "answers (PcSetRemoteDescription d) = True"
| "answers PcCreateAnswer = True"
| "answers (InsertSignal m) = (sig_type m = ''answer'')"
| "answers x = False"

text \<open>The call by which a coordinator would apply a remote ICE candidate.\<close>

fun appliesCandidate :: "effect \<Rightarrow> bool" where
  "appliesCandidate (PcAddIceCandidate c) = True"
| "appliesCandidate x = False"

text \<open>The row that relays the local candidate \<open>c\<close> (lines 100 to 105).\<close>

definition relayedCandidate :: "props \<Rightarrow> string \<Rightarrow> effect" where
  "relayedCandidate p c =
     InsertSignal \<lparr>from_user = userId p, to_user = receiverId p,
                   sig_type = ''ice-candidate'', signal = c\<rparr>"

text \<open>The row that relays the offer (lines 143 to 148).\<close>

definition relayedOffer :: "props \<Rightarrow> string \<Rightarrow> effect" where
  "relayedOffer p offer =
     InsertSignal \<lparr>from_user = userId p, to_user = receiverId p,
                   sig_type = ''offer'', signal = offer\<rparr>"

text \<open>
  The data channel is not open. The browser opens a data channel only once the connection
  is negotiated, which needs a remote description; the component never sets one (see C1),
  so the event \<open>DataChannelStateChange Open\<close> reaches no session of this program and its
  states all satisfy \<open>unopened\<close>: a peer connection or an attached stream comes with a
  data channel, and the channel is not open.
\<close>

definition channelOpen :: "call_state \<Rightarrow> bool" where
  "channelOpen s = (case channelRef s of None \<Rightarrow> False | Some dc \<Rightarrow> readyState dc = Open)"

definition unopened :: "call_state \<Rightarrow> bool" where
  "unopened s =
     ((channelRef s = None \<longrightarrow> peerConnectionRef s = None \<and> localStream s = None)
      \<and> \<not> channelOpen s)"

section \<open>Properties\<close>

subsection \<open>Auxiliary facts\<close>

lemmas handler_defs =
  initializeCall_def initializeCall_resolved_def initializeCall_rejected_def
  createOffer_def createOffer_created_def createOffer_described_def createOffer_failed_def
  onPresenceJoin_def ontrack_def onicecandidate_def cleanup_def closeEffects_def

lemmas teardown_defs =
  endCall_def sendRaises_def localStream_def closeEffects_def closePeerConnection_def
  stopLocalTracks_def stopTrack_def

lemmas react_defs =
  deliver_def commit_def render_def mountedElement_def dropUpdates_def

lemma flipEnabled_twice: "flipEnabled k stream (flipEnabled k stream t) = t"
  by (simp add: flipEnabled_def)

lemma localStream_tracks_update [simp]:
  "localStream (s\<lparr>tracks := ts, isMuted := b\<rparr>) = localStream s"
  "localStream (s\<lparr>tracks := ts, isVideoEnabled := b\<rparr>) = localStream s"
  by (simp_all add: localStream_def)

text \<open>What \<open>endCall\<close> does when it runs to its end.\<close>

lemma endCall_result:
  assumes "endCall s = Inr (fx, s')"
  shows "fx = (case channelRef s of None \<Rightarrow> [] | Some dc \<Rightarrow> [DataChannelSend endCallMessage])
            @ (case localStream s of None \<Rightarrow> [] | Some stream \<Rightarrow> map TrackStop stream)
            @ closeEffects s @ [Navigate ''/home'']"
    and "s' = (closePeerConnection (stopLocalTracks s))\<lparr>isCallActive := False\<rparr>"
  using assms by (auto simp: endCall_def split: if_splits)

lemma endCall_effects:
  "endCall s = Inr (fx, s') \<Longrightarrow> x \<in> set fx \<Longrightarrow>
     x = DataChannelSend endCallMessage \<or> (\<exists>i. x = TrackStop i) \<or> x = PcClose
     \<or> x = Navigate ''/home''"
  by (auto simp: endCall_def closeEffects_def split: if_splits option.splits)

lemma onmessage_cases:
  "onmessage d s = Inr (fx, s') \<Longrightarrow> endCall s = Inr (fx, s') \<or> (fx = [] \<and> s' = s)"
  by (auto simp: onmessage_def split: option.splits json.splits if_splits)

lemma closePeerConnection_fields [simp]:
  "tracks (closePeerConnection s) = tracks s"
  "localVideoRef (closePeerConnection s) = localVideoRef s"
  "isCallActive (closePeerConnection s) = isCallActive s"
  "isConnecting (closePeerConnection s) = isConnecting s"
  "permissionError (closePeerConnection s) = permissionError s"
  "mounted (closePeerConnection s) = mounted s"
  by (simp_all add: closePeerConnection_def split: option.splits)

lemma stopLocalTracks_fields [simp]:
  "localVideoRef (stopLocalTracks s) = localVideoRef s"
  "peerConnectionRef (stopLocalTracks s) = peerConnectionRef s"
  "channelRef (stopLocalTracks s) = channelRef s"
  "isCallActive (stopLocalTracks s) = isCallActive s"
  "isConnecting (stopLocalTracks s) = isConnecting s"
  "permissionError (stopLocalTracks s) = permissionError s"
  "mounted (stopLocalTracks s) = mounted s"
  by (simp_all add: stopLocalTracks_def localStream_def split: option.splits)

text \<open>React changes no call: a delivered event makes the calls of its callback.\<close>

lemma deliver_step:
  "deliver p s e = Inr (fx, s') \<Longrightarrow> \<exists>s''. step p s e = Inr (fx, s'') \<and> s' = commit p e s s''"
  by (auto simp: deliver_def split: sum.splits)

lemma commit_permissionError:
  "permissionError (commit p e s s') = (if mounted s then permissionError s' else permissionError s)"
  by (simp add: commit_def render_def dropUpdates_def)

text \<open>
  No callback makes one of the calls that take up a remote offer or a remote candidate:
  first for one step, then for a run, then for a session from its mount.
\<close>

lemma step_effects_outbound:
  assumes "step p s e = Inr (fx, s')" and "x \<in> set fx"
  shows "\<not> answers x \<and> \<not> appliesCandidate x"
proof (cases e)
  case PresenceLeave
  with assms show ?thesis by (auto dest: endCall_effects)
next
  case ClickEndCall
  with assms show ?thesis by (auto dest: endCall_effects)
next
  case (DataChannelMessage d)
  with assms show ?thesis by (auto dest!: onmessage_cases dest: endCall_effects)
qed (use assms in \<open>auto simp: handler_defs Let_def split: if_splits option.splits\<close>)

lemma run_effects_outbound:
  "x \<in> set (fst (run p s es)) \<Longrightarrow> \<not> answers x \<and> \<not> appliesCandidate x"
proof (induction es arbitrary: s)
  case Nil
  then show ?case by simp
next
  case (Cons e es)
  show ?case
  proof (cases "deliver p s e")
    case (Inl err)
    with Cons show ?thesis by simp
  next
    case (Inr r)
    obtain fx s' where r: "r = (fx, s')" by (cases r)
    with Inr Cons.prems have "x \<in> set fx \<or> x \<in> set (fst (run p s' es))" by simp
    moreover obtain s'' where "step p s e = Inr (fx, s'')"
      using deliver_step Inr r by blast
    ultimately show ?thesis
      using step_effects_outbound [of p s e fx s'' x] Cons.IH [of s'] by blast
  qed
qed

lemma session_effects_outbound:
  "x \<in> set (fst (session p s es)) \<Longrightarrow> \<not> answers x \<and> \<not> appliesCandidate x"
  by (auto simp: session_def mount_def initializeCall_def dest: run_effects_outbound)

text \<open>A local candidate that occurs anywhere in a run is relayed in that run.\<close>

lemma run_relays_candidate:
  "IceCandidate (Some c) \<in> set es \<Longrightarrow> relayedCandidate p c \<in> set (fst (run p s es))"
proof (induction es arbitrary: s)
  case Nil
  then show ?case by simp
next
  case (Cons e es)
  show ?case
  proof (cases "e = IceCandidate (Some c)")
    case True
    then show ?thesis by (simp add: deliver_def onicecandidate_def relayedCandidate_def)
  next
    case False
    with Cons.prems have "IceCandidate (Some c) \<in> set es" by simp
    then have "\<And>s'. relayedCandidate p c \<in> set (fst (run p s' es))" by (rule Cons.IH)
    then show ?thesis by (cases "deliver p s e") (auto split: prod.splits)
  qed
qed

text \<open>
  The data channel of this program is never opened: \<open>unopened\<close> holds after the mount and is
  kept by every event but the one the browser cannot deliver.
\<close>

lemma unopened_step:
  assumes "unopened s" and "e \<noteq> DataChannelStateChange Open" and "step p s e = Inr (fx, s')"
  shows "unopened s'"
proof (cases e)
  case PresenceLeave
  with assms show ?thesis
    by (auto simp: unopened_def channelOpen_def teardown_defs split: option.splits if_splits)
next
  case ClickEndCall
  with assms show ?thesis
    by (auto simp: unopened_def channelOpen_def teardown_defs split: option.splits if_splits)
next
  case (DataChannelMessage d)
  with assms onmessage_cases [of d s fx s'] show ?thesis
    by (auto simp: unopened_def channelOpen_def teardown_defs split: option.splits if_splits)
qed (use assms in \<open>auto simp: unopened_def channelOpen_def handler_defs localStream_def
      closePeerConnection_def toggleMute_def toggleVideo_def Let_def
      split: option.splits if_splits\<close>)

lemma unopened_commit: "unopened s' \<Longrightarrow> unopened (commit p e s s')"
  by (auto simp: unopened_def channelOpen_def commit_def render_def mountedElement_def
      dropUpdates_def localStream_def split: option.splits)

lemma unopened_run:
  "unopened s \<Longrightarrow> DataChannelStateChange Open \<notin> set es \<Longrightarrow> unopened (snd (run p s es))"
proof (induction es arbitrary: s)
  case Nil
  then show ?case by simp
next
  case (Cons e es)
  show ?case
  proof (cases "deliver p s e")
    case (Inl err)
    with Cons show ?thesis by simp
  next
    case (Inr r)
    obtain fx s' where r: "r = (fx, s')" by (cases r)
    then obtain s'' where "step p s e = Inr (fx, s'')" and "s' = commit p e s s''"
      using deliver_step Inr by blast
    with Cons.prems have "unopened s'"
      using unopened_step [of s e p fx s''] unopened_commit by auto
    with Cons Inr r show ?thesis by simp
  qed
qed

lemma unopened_session:
  "unopened s \<Longrightarrow> DataChannelStateChange Open \<notin> set es \<Longrightarrow> unopened (snd (session p s es))"
proof -
  assume s: "unopened s" and es: "DataChannelStateChange Open \<notin> set es"
  have "unopened (snd (mount p s))"
    using s by (simp add: unopened_def channelOpen_def mount_def initializeCall_def localStream_def)
  then show ?thesis using es by (simp add: session_def unopened_run)
qed

text \<open>
  So in this program \<open>endCall\<close> raises as soon as the media are acquired, and runs to its
  end only in a session that holds no data channel, peer connection or stream.
\<close>

lemma unopened_endCall_raises:
  "unopened s \<Longrightarrow> channelRef s \<noteq> None \<Longrightarrow> endCall s = Inl InvalidStateError"
  by (auto simp: unopened_def channelOpen_def endCall_def sendRaises_def split: option.splits)

lemma unopened_endCall_completes:
  assumes "unopened s" and "endCall s = Inr (fx, s')"
  shows "channelRef s = None" and "peerConnectionRef s = None" and "localStream s = None"
    and "fx = [Navigate ''/home'']" and "s' = s\<lparr>isCallActive := False\<rparr>"
proof -
  show c: "channelRef s = None"
    using assms unopened_endCall_raises [of s] by (cases "channelRef s") auto
  with assms(1) show pc: "peerConnectionRef s = None" and ls: "localStream s = None"
    by (simp_all add: unopened_def)
  show "fx = [Navigate ''/home'']"
    using endCall_result(1) [OF assms(2)] c pc ls by (simp add: closeEffects_def)
  show "s' = s\<lparr>isCallActive := False\<rparr>"
    using endCall_result(2) [OF assms(2)] pc ls
    by (simp add: closePeerConnection_def stopLocalTracks_def)
qed

text \<open>The concrete sessions, evaluated.\<close>

lemma acquiring_eq:
  "acquiring =
     \<lparr>isMuted = False, isVideoEnabled = True, isCallActive = False, isConnecting = True,
      permissionError = None, localVideoRef = Some \<lparr>srcObject = None\<rparr>,
      remoteVideoRef = Some \<lparr>srcObject = None\<rparr>,
      peerConnectionRef = None, channelRef = None, tracks = [], mounted = True\<rparr>"
  by (simp add: acquiring_def session_def mount_def initializeCall_def rendered_def
      initial_state_def)

lemma connecting_eq:
  "connecting =
     \<lparr>isMuted = False, isVideoEnabled = True, isCallActive = False, isConnecting = True,
      permissionError = None, localVideoRef = Some \<lparr>srcObject = Some [0, 1]\<rparr>,
      remoteVideoRef = Some \<lparr>srcObject = None\<rparr>,
      peerConnectionRef = Some \<lparr>pc_closed = False, pc_senders = [0, 1]\<rparr>,
      channelRef = Some \<lparr>dc_label = ''call-channel'', readyState = Connecting\<rparr>,
      tracks = [mic, camera], mounted = True\<rparr>"
  by (simp add: connecting_def session_def mount_def initializeCall_def
      initializeCall_resolved_def rendered_def initial_state_def mic_def camera_def Let_def
      react_defs alice_def)

lemma denied_eq:
  "denied =
     \<lparr>isMuted = False, isVideoEnabled = True, isCallActive = False, isConnecting = True,
      permissionError = Some ''Please allow access to your camera and microphone to make calls.'',
      localVideoRef = None, remoteVideoRef = None,
      peerConnectionRef = None, channelRef = None, tracks = [], mounted = True\<rparr>"
  by (simp add: denied_def session_def mount_def initializeCall_def initializeCall_rejected_def
      errorMessage_def rendered_def initial_state_def react_defs)

lemma render_connecting: "render alice connecting = connecting"
  by (simp add: connecting_eq render_def mountedElement_def alice_def)

subsection \<open>Negotiation\<close>

text \<open>
  C1, as the code has it: the coordinator has no callback for received SignalMessages.
  A received offer changes nothing, and in no session, whatever the events, does the
  coordinator set a remote description, create an answer or relay a SignalMessage of kind
  answer.
\<close>

theorem offer_received_not_answered:
  "step p s (SignalReceived m) = Inr ([], s)
   \<and> (\<forall>x \<in> set (fst (session p s es)). \<not> answers x)"
  using session_effects_outbound by auto

theorem offer_received_not_answered_witness:
  "list_all (\<lambda>x. \<not> answers x)
     (fst (session alice rendered [GetUserMediaResolved [mic, camera], SignalReceived bobs_offer]))"
  using offer_received_not_answered [of alice rendered bobs_offer
      "[GetUserMediaResolved [mic, camera], SignalReceived bobs_offer]"]
  by (simp add: list_all_iff)

text \<open>
  C1 as stated fails: Alice's coordinator has acquired its media and is connecting when
  Bob's offer, addressed to her, arrives. It makes no call at all and its state is as
  before; the calls of the whole session are those of the mount and of the acquisition.
\<close>

theorem offer_received_counterexample:
  "run alice connecting [SignalReceived bobs_offer] = ([], connecting)
   \<and> fst (session alice rendered [GetUserMediaResolved [mic, camera], SignalReceived bobs_offer])
     = [FetchProfile ''bob'', GetUserMedia True True, ChannelSubscribe ''call:bob'',
        NewPeerConnection iceServers, PcAddTrack 0, PcAddTrack 1,
        PcCreateDataChannel ''call-channel'']"
proof -
  have "run alice connecting [SignalReceived bobs_offer] = ([], connecting)"
    by (simp add: deliver_def commit_def render_connecting) (simp add: connecting_eq)
  moreover have "fst (session alice rendered
        [GetUserMediaResolved [mic, camera], SignalReceived bobs_offer])
     = [FetchProfile ''bob'', GetUserMedia True True, ChannelSubscribe ''call:bob'',
        NewPeerConnection iceServers, PcAddTrack 0, PcAddTrack 1,
        PcCreateDataChannel ''call-channel'']"
    by (simp add: session_def mount_def initializeCall_def initializeCall_resolved_def
        deliver_def alice_def channelName_def mic_def camera_def Let_def)
  ultimately show ?thesis by simp
qed

text \<open>
  C2, as the code has it: in every state, a locally discovered candidate is relayed in the
  very callback that reports it, as a row of type \<open>ice-candidate\<close> from the local to the
  remote participant; so every local candidate of a session is relayed, wherever it occurs
  among the other events. A received \<open>ice-candidate\<close> row changes nothing, and in no
  session does the coordinator add a remote candidate to the peer connection.
\<close>

theorem ice_candidates_relayed_not_applied:
  "step p s (IceCandidate (Some c)) = Inr ([relayedCandidate p c], s)
   \<and> (IceCandidate (Some c) \<in> set es \<longrightarrow> relayedCandidate p c \<in> set (fst (session p s es)))
   \<and> step p s (SignalReceived m) = Inr ([], s)
   \<and> (\<forall>x \<in> set (fst (session p s es)). \<not> appliesCandidate x)"
  using session_effects_outbound [of _ p s es] run_relays_candidate [of c es p]
  by (auto simp: onicecandidate_def relayedCandidate_def session_def)

theorem ice_candidates_relayed_not_applied_witness:
  "IceCandidate (Some ''candidate:7'')
     \<in> set [GetUserMediaResolved [mic, camera], IceCandidate (Some ''candidate:7''),
            SignalReceived bobs_candidate]
   \<and> relayedCandidate alice ''candidate:7''
       \<in> set (fst (session alice rendered
            [GetUserMediaResolved [mic, camera], IceCandidate (Some ''candidate:7''),
             SignalReceived bobs_candidate]))
   \<and> list_all (\<lambda>x. \<not> appliesCandidate x)
       (fst (session alice rendered
            [GetUserMediaResolved [mic, camera], IceCandidate (Some ''candidate:7''),
             SignalReceived bobs_candidate]))"
  using ice_candidates_relayed_not_applied [of alice rendered "''candidate:7''"
      "[GetUserMediaResolved [mic, camera], IceCandidate (Some ''candidate:7''),
        SignalReceived bobs_candidate]"]
  by (simp add: list_all_iff)

text \<open>
  C2 as stated fails: Bob's candidate arrives while Alice's coordinator is connecting. It
  makes no call and its state is as before; no candidate is added to the peer connection
  in the whole session.
\<close>

theorem candidate_received_counterexample:
  "run alice connecting [SignalReceived bobs_candidate] = ([], connecting)
   \<and> fst (session alice rendered [GetUserMediaResolved [mic, camera], SignalReceived bobs_candidate])
     = [FetchProfile ''bob'', GetUserMedia True True, ChannelSubscribe ''call:bob'',
        NewPeerConnection iceServers, PcAddTrack 0, PcAddTrack 1,
        PcCreateDataChannel ''call-channel'']"
proof -
  have "run alice connecting [SignalReceived bobs_candidate] = ([], connecting)"
    by (simp add: deliver_def commit_def render_connecting) (simp add: connecting_eq)
  moreover have "fst (session alice rendered
        [GetUserMediaResolved [mic, camera], SignalReceived bobs_candidate])
     = [FetchProfile ''bob'', GetUserMedia True True, ChannelSubscribe ''call:bob'',
        NewPeerConnection iceServers, PcAddTrack 0, PcAddTrack 1,
        PcCreateDataChannel ''call-channel'']"
    by (simp add: session_def mount_def initializeCall_def initializeCall_resolved_def
        deliver_def alice_def channelName_def mic_def camera_def Let_def)
  ultimately show ?thesis by simp
qed

subsection \<open>Teardown\<close>

text \<open>
  C3: every termination trigger runs the same routine, which on every exit path stops the
  local tracks and closes the peer connection. The code runs the same routine \<open>endCall\<close> on
  all three triggers, but fails the rest: \<open>endCall\<close> sends the notice first (line 176) and
  does not catch what the send raises. In Alice's session with the media acquired the data
  channel is not open, so her hang-up, and likewise a presence-leave, raises
  \<open>InvalidStateError\<close> and the routine is abandoned: no call is made, both tracks keep
  running, the peer connection stays open and nothing navigates.
\<close>

theorem hangup_raises_before_release:
  "step alice connecting ClickEndCall = endCall connecting
   \<and> step alice connecting PresenceLeave = endCall connecting
   \<and> step alice connecting (DataChannelMessage (Some endCallMessage)) = endCall connecting
   \<and> endCall connecting = Inl InvalidStateError
   \<and> run alice connecting [ClickEndCall] = ([], connecting)
   \<and> tracks connecting = [mic, camera] \<and> \<not> stopped mic \<and> \<not> stopped camera
   \<and> peerConnectionRef connecting = Some \<lparr>pc_closed = False, pc_senders = [0, 1]\<rparr>
   \<and> fst (session alice rendered [GetUserMediaResolved [mic, camera], ClickEndCall])
     = [FetchProfile ''bob'', GetUserMedia True True, ChannelSubscribe ''call:bob'',
        NewPeerConnection iceServers, PcAddTrack 0, PcAddTrack 1,
        PcCreateDataChannel ''call-channel'']"
proof -
  have raises: "endCall connecting = Inl InvalidStateError"
    by (simp add: connecting_eq endCall_def sendRaises_def)
  have triggers: "step alice connecting ClickEndCall = endCall connecting"
    "step alice connecting PresenceLeave = endCall connecting"
    "step alice connecting (DataChannelMessage (Some endCallMessage)) = endCall connecting"
    by (simp_all add: onmessage_def endCallMessage_def)
  have held: "tracks connecting = [mic, camera] \<and> \<not> stopped mic \<and> \<not> stopped camera
      \<and> peerConnectionRef connecting = Some \<lparr>pc_closed = False, pc_senders = [0, 1]\<rparr>"
    by (simp add: connecting_eq mic_def camera_def)
  have "snd (run alice (snd (mount alice rendered)) [GetUserMediaResolved [mic, camera]])
      = connecting"
    by (simp add: connecting_def session_def)
  then have whole: "fst (session alice rendered [GetUserMediaResolved [mic, camera], ClickEndCall])
     = [FetchProfile ''bob'', GetUserMedia True True, ChannelSubscribe ''call:bob'',
        NewPeerConnection iceServers, PcAddTrack 0, PcAddTrack 1,
        PcCreateDataChannel ''call-channel'']"
    using raises
    by (simp add: session_def mount_def initializeCall_def initializeCall_resolved_def
        deliver_def alice_def channelName_def mic_def camera_def Let_def
        split: sum.splits prod.splits)
  show ?thesis using raises triggers held whole by (simp add: deliver_def)
qed

text \<open>
  C4: a second teardown produces no error and no further side effect. In the code every
  invocation of \<open>endCall\<close> in a session with the media acquired raises: after a
  presence-leave has run the routine in Alice's session, her hang-up raises
  \<open>InvalidStateError\<close> again, and so does a hang-up after a hang-up.
\<close>

theorem second_hangup_raises:
  "step alice (snd (run alice connecting [PresenceLeave])) ClickEndCall = Inl InvalidStateError
   \<and> step alice (snd (run alice connecting [ClickEndCall])) ClickEndCall = Inl InvalidStateError
   \<and> run alice connecting [PresenceLeave, ClickEndCall] = ([], connecting)
   \<and> run alice connecting [ClickEndCall, ClickEndCall] = ([], connecting)"
proof -
  have raises: "endCall connecting = Inl InvalidStateError"
    by (simp add: connecting_eq endCall_def sendRaises_def)
  then show ?thesis by (simp add: deliver_def)
qed

text \<open>
  C5, as the code has it. Let \<open>endCall\<close> have run to its end in a session of the program
  and the component be unmounted. Then every event but one leaves the state as it is:
  every signaling, presence, ICE-candidate and data-channel callback, and every completion
  of a pending operation other than a media acquisition that succeeds. When a pending
  \<open>getUserMedia\<close> resolves, its continuation checks nothing and puts a new, open peer
  connection into the ended session.
\<close>

theorem after_ended_callbacks:
  "unopened s0 \<and> endCall s0 = Inr (fx0, s1) \<and> deliver p s1 Unmount = Inr (fx1, s) \<longrightarrow>
     (\<forall>e. (\<forall>ts. e \<noteq> GetUserMediaResolved ts) \<longrightarrow> snd (run p s [e]) = s)
   \<and> peerConnectionRef s = None
   \<and> peerConnectionRef (snd (run p s [GetUserMediaResolved ts]))
       = Some \<lparr>pc_closed = False, pc_senders = map tid ts\<rparr>"
proof
  assume asm: "unopened s0 \<and> endCall s0 = Inr (fx0, s1) \<and> deliver p s1 Unmount = Inr (fx1, s)"
  then have s1: "s1 = s0\<lparr>isCallActive := False\<rparr>"
    and c0: "channelRef s0 = None" and pc0: "peerConnectionRef s0 = None"
    using unopened_endCall_completes [of s0 fx0 s1] by simp_all
  obtain a b c d e lv rv pc ch ts0 m where s0:
    "s0 = \<lparr>isMuted = a, isVideoEnabled = b, isCallActive = c, isConnecting = d,
           permissionError = e, localVideoRef = lv, remoteVideoRef = rv,
           peerConnectionRef = pc, channelRef = ch, tracks = ts0, mounted = m\<rparr>"
    by (cases s0)
  with c0 pc0 have none: "pc = None" "ch = None" by simp_all
  have s: "s = \<lparr>isMuted = a, isVideoEnabled = b, isCallActive = False, isConnecting = d,
           permissionError = e, localVideoRef = None, remoteVideoRef = None,
           peerConnectionRef = None, channelRef = None, tracks = ts0, mounted = False\<rparr>"
    using asm unfolding s1 s0 none
    by (auto simp: deliver_def commit_def dropUpdates_def cleanup_def closePeerConnection_def)
  have quiet: "snd (run p s [ev]) = s" if "\<forall>ts. ev \<noteq> GetUserMediaResolved ts" for ev
  proof (cases ev)
    case (DataChannelMessage msg)
    then show ?thesis
      unfolding s
      by (simp add: react_defs onmessage_def teardown_defs
          split: option.splits json.splits sum.splits prod.splits)
  qed (use that in \<open>simp_all add: s react_defs handler_defs teardown_defs
        toggleMute_def toggleVideo_def split: option.splits sum.splits prod.splits\<close>)
  have resurrect: "peerConnectionRef (snd (run p s [GetUserMediaResolved ts]))
       = Some \<lparr>pc_closed = False, pc_senders = map tid ts\<rparr>"
    by (simp add: s react_defs initializeCall_resolved_def Let_def)
  show "(\<forall>e. (\<forall>ts. e \<noteq> GetUserMediaResolved ts) \<longrightarrow> snd (run p s [e]) = s)
   \<and> peerConnectionRef s = None
   \<and> peerConnectionRef (snd (run p s [GetUserMediaResolved ts]))
       = Some \<lparr>pc_closed = False, pc_senders = map tid ts\<rparr>"
    using quiet resurrect by (simp add: s)
qed

lemma hungUp_eq:
  "snd (session alice rendered [ClickEndCall, Unmount])
     = \<lparr>isMuted = False, isVideoEnabled = True, isCallActive = False, isConnecting = True,
        permissionError = None, localVideoRef = None, remoteVideoRef = None,
        peerConnectionRef = None, channelRef = None, tracks = [], mounted = False\<rparr>"
  by (simp add: session_def mount_def initializeCall_def rendered_def initial_state_def
      teardown_defs cleanup_def react_defs alice_def)

theorem after_ended_callbacks_witness:
  "unopened acquiring
   \<and> endCall acquiring = Inr ([Navigate ''/home''], acquiring)
   \<and> deliver alice acquiring Unmount
       = Inr ([ChannelUnsubscribe ''call:bob''], snd (session alice rendered [ClickEndCall, Unmount]))
   \<and> snd (run alice (snd (session alice rendered [ClickEndCall, Unmount]))
            [PresenceJoin [\<lparr>user_id = ''bob''\<rparr>]])
       = snd (session alice rendered [ClickEndCall, Unmount])
   \<and> snd (run alice (snd (session alice rendered [ClickEndCall, Unmount]))
            [GetUserMediaRejected ''NotAllowedError''])
       = snd (session alice rendered [ClickEndCall, Unmount])
   \<and> peerConnectionRef (snd (run alice (snd (session alice rendered [ClickEndCall, Unmount]))
            [GetUserMediaResolved [mic, camera]]))
       = Some \<lparr>pc_closed = False, pc_senders = [0, 1]\<rparr>"
proof -
  have u: "unopened acquiring"
    by (simp add: acquiring_eq unopened_def channelOpen_def localStream_def)
  have e: "endCall acquiring = Inr ([Navigate ''/home''], acquiring)"
    by (simp add: acquiring_eq teardown_defs)
  have d: "deliver alice acquiring Unmount
       = Inr ([ChannelUnsubscribe ''call:bob''], snd (session alice rendered [ClickEndCall, Unmount]))"
    by (simp add: hungUp_eq) (simp add: acquiring_eq react_defs cleanup_def closeEffects_def
        closePeerConnection_def channelName_def alice_def)
  show ?thesis
    using after_ended_callbacks [of acquiring "[Navigate ''/home'']" acquiring alice
        "[ChannelUnsubscribe ''call:bob'']" "snd (session alice rendered [ClickEndCall, Unmount])"
        "[mic, camera]"] u e d
    by (simp add: mic_def camera_def)
qed

text \<open>
  C5 as stated fails. Alice hangs up while the request for her media is pending and the
  component unmounts. When the request then resolves, its continuation builds a new, open
  peer connection and a data channel around the running tracks, in the session that had
  ended.
\<close>

theorem after_ended_counterexample:
  "snd (session alice rendered [ClickEndCall, Unmount])
     = \<lparr>isMuted = False, isVideoEnabled = True, isCallActive = False, isConnecting = True,
        permissionError = None, localVideoRef = None, remoteVideoRef = None,
        peerConnectionRef = None, channelRef = None, tracks = [], mounted = False\<rparr>
   \<and> snd (session alice rendered [ClickEndCall, Unmount, GetUserMediaResolved [mic, camera]])
     = \<lparr>isMuted = False, isVideoEnabled = True, isCallActive = False, isConnecting = True,
        permissionError = None, localVideoRef = None, remoteVideoRef = None,
        peerConnectionRef = Some \<lparr>pc_closed = False, pc_senders = [0, 1]\<rparr>,
        channelRef = Some \<lparr>dc_label = ''call-channel'', readyState = Connecting\<rparr>,
        tracks = [mic, camera], mounted = False\<rparr>"
proof -
  have b: "snd (session alice rendered [ClickEndCall, Unmount, GetUserMediaResolved [mic, camera]])
     = \<lparr>isMuted = False, isVideoEnabled = True, isCallActive = False, isConnecting = True,
        permissionError = None, localVideoRef = None, remoteVideoRef = None,
        peerConnectionRef = Some \<lparr>pc_closed = False, pc_senders = [0, 1]\<rparr>,
        channelRef = Some \<lparr>dc_label = ''call-channel'', readyState = Connecting\<rparr>,
        tracks = [mic, camera], mounted = False\<rparr>"
    by (simp add: session_def mount_def initializeCall_def rendered_def initial_state_def
        teardown_defs cleanup_def react_defs initializeCall_resolved_def Let_def
        mic_def camera_def alice_def)
  show ?thesis using hungUp_eq b by simp
qed

subsection \<open>Media acquisition\<close>

text \<open>
  C6, as the code has it: the three recognised error names have three fixed, pairwise
  distinct messages, all different from the generic message; every other failure of the
  acquisition is recorded with the generic message.
\<close>

theorem errorMessage_classes:
  "distinct [errorMessage ''NotAllowedError'', errorMessage ''NotFoundError'',
             errorMessage ''NotReadableError'', ''Could not access camera or microphone.'']
   \<and> (name \<notin> {''NotAllowedError'', ''NotFoundError'', ''NotReadableError''}
        \<longrightarrow> errorMessage name = ''Could not access camera or microphone.'')
   \<and> permissionError (snd (initializeCall_rejected name s)) = Some (errorMessage name)"
  by (simp add: errorMessage_def initializeCall_rejected_def)

theorem errorMessage_classes_witness:
  "''AbortError'' \<notin> {''NotAllowedError'', ''NotFoundError'', ''NotReadableError''}
   \<and> errorMessage ''AbortError'' = ''Could not access camera or microphone.''
   \<and> permissionError (snd (initializeCall_rejected ''NotFoundError'' rendered))
       = Some ''No camera or microphone found. Please check your device connections.''"
  using errorMessage_classes [of "''AbortError''" rendered]
    errorMessage_classes [of "''NotFoundError''" rendered]
  by (simp add: errorMessage_def)

text \<open>
  C6 as stated fails: a rejection named \<open>OverconstrainedError\<close> is surfaced with the
  generic message.
\<close>

theorem errorMessage_counterexample:
  "errorMessage ''OverconstrainedError'' = ''Could not access camera or microphone.''
   \<and> permissionError (snd (initializeCall_rejected ''OverconstrainedError'' rendered))
       = Some ''Could not access camera or microphone.''"
  by (simp add: errorMessage_def initializeCall_rejected_def)

text \<open>
  C9, as the code has it. A rejected acquisition records its message and requests nothing.
  A recorded failure is cleared, and the media requested again, by \<open>initializeCall\<close> alone,
  which clears the failure and then makes one request. Among the events of the component
  only the click on \<open>Try Again\<close> runs it; it also runs, with no click, when the effect runs
  again after a change of its dependencies. The state with a recorded failure is also left
  with no retry and with the failure still recorded: \<open>Go Back\<close>, and a presence-leave in a
  session that has acquired no media, navigate to \<open>/home\<close>.
\<close>

theorem permission_denied_transitions:
  "(mounted s \<longrightarrow>
      deliver p s (GetUserMediaRejected name)
        = Inr ([ConsoleError ''Error accessing media devices:''],
               render p (s\<lparr>permissionError := Some (errorMessage name)\<rparr>)))
   \<and> (deliver p s e = Inr (fx, s') \<and> permissionError s \<noteq> None \<and> permissionError s' = None
        \<longrightarrow> e = ClickTryAgain)
   \<and> (deliver p s e = Inr (fx, s') \<and> (\<exists>a v. GetUserMedia a v \<in> set fx) \<longrightarrow> e = ClickTryAgain)
   \<and> (mounted s \<longrightarrow>
        deliver p s ClickTryAgain
          = Inr ([GetUserMedia True (callType p = ''video'')],
                 render p (s\<lparr>permissionError := None\<rparr>)))
   \<and> fst (effectRerun p p' s)
       = ChannelUnsubscribe (channelName p) # closeEffects s
         @ [FetchProfile (receiverId p'), GetUserMedia True (callType p' = ''video''),
            ChannelSubscribe (channelName p')]
   \<and> permissionError (snd (effectRerun p p' s)) = None
   \<and> (mounted s \<longrightarrow> deliver p s ClickGoBack = Inr ([Navigate ''/home''], render p s))
   \<and> (mounted s \<and> unopened s \<and> channelRef s = None \<longrightarrow>
        deliver p s PresenceLeave
          = Inr ([Navigate ''/home''], render p (s\<lparr>isCallActive := False\<rparr>)))"
proof -
  have endCall_keeps: "permissionError t' = permissionError t \<and> (\<forall>a v. GetUserMedia a v \<notin> set gx)"
    if "endCall t = Inr (gx, t')" for t gx t'
    using endCall_result [OF that] by (auto simp: closeEffects_def split: option.splits)
  have step_out: "ev = ClickTryAgain"
    if "step p t ev = Inr (gx, t')"
      and "(permissionError t \<noteq> None \<and> permissionError t' = None) \<or> (\<exists>a v. GetUserMedia a v \<in> set gx)"
    for t ev gx t'
  proof (cases ev)
    case PresenceLeave
    with that endCall_keeps [of t gx t'] show ?thesis by auto
  next
    case ClickEndCall
    with that endCall_keeps [of t gx t'] show ?thesis by auto
  next
    case (DataChannelMessage d)
    with that endCall_keeps [of t gx t'] onmessage_cases [of d t gx t'] show ?thesis by auto
  qed (use that in \<open>auto simp: handler_defs Let_def toggleMute_def toggleVideo_def
        split: if_splits option.splits\<close>)
  have cleared: "e = ClickTryAgain"
    if d: "deliver p s e = Inr (fx, s')" and c: "permissionError s \<noteq> None" "permissionError s' = None"
  proof -
    obtain s'' where st: "step p s e = Inr (fx, s'')" and s': "s' = commit p e s s''"
      using deliver_step [OF d] by blast
    have "permissionError s'' = None"
      using c s' by (cases "mounted s") (simp_all add: commit_permissionError)
    with st c show ?thesis using step_out [of s e fx s''] by simp
  qed
  have requested: "e = ClickTryAgain"
    if d: "deliver p s e = Inr (fx, s')" and g: "\<exists>a v. GetUserMedia a v \<in> set fx"
  proof -
    obtain s'' where "step p s e = Inr (fx, s'')" using deliver_step [OF d] by blast
    with g show ?thesis using step_out [of s e fx s''] by simp
  qed
  have leave: "deliver p s PresenceLeave
          = Inr ([Navigate ''/home''], render p (s\<lparr>isCallActive := False\<rparr>))"
    if "mounted s" "unopened s" "channelRef s = None"
  proof -
    from that have "peerConnectionRef s = None" "localStream s = None"
      by (simp_all add: unopened_def)
    with that show ?thesis
      by (simp add: deliver_def commit_def endCall_def sendRaises_def closeEffects_def
          closePeerConnection_def stopLocalTracks_def)
  qed
  have rerun: "fst (effectRerun p p' s)
       = ChannelUnsubscribe (channelName p) # closeEffects s
         @ [FetchProfile (receiverId p'), GetUserMedia True (callType p' = ''video''),
            ChannelSubscribe (channelName p')]"
    "permissionError (snd (effectRerun p p' s)) = None"
    by (simp_all add: effectRerun_def cleanup_def mount_def initializeCall_def)
  show ?thesis
    using cleared requested leave rerun
    by (auto simp: deliver_def commit_def initializeCall_def initializeCall_rejected_def)
qed

theorem permission_denied_transitions_witness:
  "mounted acquiring
   \<and> deliver alice acquiring (GetUserMediaRejected ''NotAllowedError'')
       = Inr ([ConsoleError ''Error accessing media devices:''], denied)
   \<and> mounted denied \<and> unopened denied \<and> channelRef denied = None
   \<and> permissionError denied \<noteq> None \<and> permissionError acquiring = None
   \<and> deliver alice denied ClickTryAgain = Inr ([GetUserMedia True True], acquiring)
   \<and> GetUserMedia True True \<in> set [GetUserMedia True True]
   \<and> deliver alice denied ClickGoBack = Inr ([Navigate ''/home''], denied)
   \<and> deliver alice denied PresenceLeave = Inr ([Navigate ''/home''], denied)"
  using permission_denied_transitions [where s = acquiring and p = alice
      and name = "''NotAllowedError''" and e = ClickTryAgain]
    permission_denied_transitions [where s = denied and p = alice and e = ClickTryAgain
      and fx = "[GetUserMedia True True]" and s' = acquiring]
  by (simp add: acquiring_eq denied_eq render_def mountedElement_def errorMessage_def
      alice_def unopened_def channelOpen_def localStream_def)

text \<open>
  C9 as stated fails. With Alice's failure recorded, a presence-leave runs \<open>endCall\<close>, which
  navigates to \<open>/home\<close>, and so does \<open>Go Back\<close>: the session leaves the state without a
  retry. And when the call type changes, the effect runs again and requests the media with
  no click.
\<close>

theorem permission_denied_counterexample:
  "permissionError denied
     = Some ''Please allow access to your camera and microphone to make calls.''
   \<and> run alice denied [PresenceLeave] = ([Navigate ''/home''], denied)
   \<and> run alice denied [ClickGoBack] = ([Navigate ''/home''], denied)
   \<and> fst (effectRerun alice (alice\<lparr>callType := ''voice''\<rparr>) denied)
       = [ChannelUnsubscribe ''call:bob'', FetchProfile ''bob'', GetUserMedia True False,
          ChannelSubscribe ''call:bob'']"
  by (simp add: denied_eq react_defs teardown_defs effectRerun_def cleanup_def mount_def
      initializeCall_def channelName_def alice_def)

subsection \<open>Presence\<close>

text \<open>
  C7, as the code has it: the channel name is a function of the remote participant alone,
  so two coordinators subscribe to the same channel exactly when they have the same remote
  participant.
\<close>

theorem channelName_remote_only:
  "(channelName p = channelName q) = (receiverId p = receiverId q)"
  by (simp add: channelName_def)

text \<open>
  C7 as stated fails: Alice's coordinator (remote Bob) and Bob's coordinator (remote Alice)
  compute different channel names.
\<close>

theorem channelName_counterexample: "channelName alice \<noteq> channelName bob"
  by (simp add: channelName_def alice_def bob_def)

text \<open>
  C8, as the code has it: each coordinator decides alone. A callback asks the peer
  connection for an offer exactly when it handles a presence-join whose new presences
  include the remote participant while the peer connection already exists; the offer is
  relayed once it is set as the local description. The identifier of the local participant
  takes no part in the decision.
\<close>

theorem offer_created_on_join:
  "(step p s e = Inr (fx, s') \<longrightarrow>
      (PcCreateOffer \<in> set fx) =
        (\<exists>ps. e = PresenceJoin ps \<and> list_ex (\<lambda>q. user_id q = receiverId p) ps
              \<and> peerConnectionRef s \<noteq> None))
   \<and> step p s (SetLocalDescriptionResolved offer) = Inr ([relayedOffer p offer], s)
   \<and> fst (onPresenceJoin (p\<lparr>userId := u\<rparr>) ps' s) = fst (onPresenceJoin p ps' s)"
proof -
  have decide: "step p s e = Inr (fx, s') \<longrightarrow>
      (PcCreateOffer \<in> set fx) =
        (\<exists>ps. e = PresenceJoin ps \<and> list_ex (\<lambda>q. user_id q = receiverId p) ps
              \<and> peerConnectionRef s \<noteq> None)"
  proof (cases e)
    case PresenceLeave
    then show ?thesis by (auto dest: endCall_effects)
  next
    case ClickEndCall
    then show ?thesis by (auto dest: endCall_effects)
  next
    case (DataChannelMessage d)
    then show ?thesis by (auto dest!: onmessage_cases dest: endCall_effects)
  qed (auto simp: handler_defs Let_def split: if_splits option.splits)
  show ?thesis
    using decide by (simp add: createOffer_described_def relayedOffer_def onPresenceJoin_def)
qed

theorem offer_created_on_join_witness:
  "step alice connecting (PresenceJoin [\<lparr>user_id = ''bob''\<rparr>])
     = Inr ([PcCreateOffer], connecting\<lparr>isConnecting := False\<rparr>)
   \<and> PcCreateOffer \<in> set [PcCreateOffer]
   \<and> peerConnectionRef connecting \<noteq> None"
  using offer_created_on_join [of alice connecting "PresenceJoin [\<lparr>user_id = ''bob''\<rparr>]"
      "[PcCreateOffer]" "connecting\<lparr>isConnecting := False\<rparr>"]
  by (simp add: onPresenceJoin_def createOffer_def alice_def connecting_eq)

text \<open>
  C8 as stated fails. When Alice and Bob each observe the other's join after acquiring
  their media, both create an offer and both relay it. When Alice observes Bob's join
  before her media is acquired she never creates an offer, although she is the one who
  observed the join.
\<close>

theorem offerer_counterexample:
  "fst (session alice rendered
       [GetUserMediaResolved [mic, camera], PresenceJoin [\<lparr>user_id = ''bob''\<rparr>],
        CreateOfferResolved ''v=0 a'', SetLocalDescriptionResolved ''v=0 a''])
     = [FetchProfile ''bob'', GetUserMedia True True, ChannelSubscribe ''call:bob'',
        NewPeerConnection iceServers, PcAddTrack 0, PcAddTrack 1,
        PcCreateDataChannel ''call-channel'', PcCreateOffer, PcSetLocalDescription ''v=0 a'',
        relayedOffer alice ''v=0 a'']
   \<and> fst (session bob rendered
       [GetUserMediaResolved [mic, camera], PresenceJoin [\<lparr>user_id = ''alice''\<rparr>],
        CreateOfferResolved ''v=0 b'', SetLocalDescriptionResolved ''v=0 b''])
     = [FetchProfile ''alice'', GetUserMedia True True, ChannelSubscribe ''call:alice'',
        NewPeerConnection iceServers, PcAddTrack 0, PcAddTrack 1,
        PcCreateDataChannel ''call-channel'', PcCreateOffer, PcSetLocalDescription ''v=0 b'',
        relayedOffer bob ''v=0 b'']
   \<and> fst (session alice rendered
       [PresenceJoin [\<lparr>user_id = ''bob''\<rparr>], GetUserMediaResolved [mic, camera]])
     = [FetchProfile ''bob'', GetUserMedia True True, ChannelSubscribe ''call:bob'',
        NewPeerConnection iceServers, PcAddTrack 0, PcAddTrack 1,
        PcCreateDataChannel ''call-channel'']"
  by (simp add: session_def mount_def initializeCall_def initializeCall_resolved_def
      onPresenceJoin_def createOffer_def createOffer_created_def createOffer_described_def
      relayedOffer_def rendered_def initial_state_def react_defs
      alice_def bob_def channelName_def mic_def camera_def Let_def)

subsection \<open>Toggles\<close>

text \<open>
  C10: with a stream attached to the local video element, toggling mute twice, or video
  twice, gives back the state it started from: the flag and the \<open>enabled\<close> field of every
  track are restored. Without such a stream a single toggle already changes nothing.
\<close>

theorem toggle_twice_restores:
  "toggleMute (toggleMute s) = s \<and> toggleVideo (toggleVideo s) = s
   \<and> (localStream s = None \<longrightarrow> toggleMute s = s \<and> toggleVideo s = s)"
proof -
  have m: "toggleMute (toggleMute s) = s"
    by (cases "localStream s") (simp_all add: toggleMute_def flipEnabled_twice comp_def)
  have v: "toggleVideo (toggleVideo s) = s"
    by (cases "localStream s") (simp_all add: toggleVideo_def flipEnabled_twice comp_def)
  show ?thesis using m v by (simp add: toggleMute_def toggleVideo_def)
qed

theorem toggle_twice_restores_witness:
  "localStream rendered = None \<and> toggleMute rendered = rendered \<and> toggleVideo rendered = rendered
   \<and> isMuted (toggleMute connecting) \<and> \<not> isVideoEnabled (toggleVideo connecting)
   \<and> toggleMute (toggleMute connecting) = connecting
   \<and> toggleVideo (toggleVideo connecting) = connecting"
  using toggle_twice_restores [of rendered] toggle_twice_restores [of connecting]
  by (simp add: rendered_def initial_state_def localStream_def)
     (simp add: connecting_eq toggleMute_def toggleVideo_def localStream_def)

end
